theory Spec2Isabelle
  imports Complex_Main
begin

section \<open>JavaScript strings\<close>

text \<open>
  The content script of the recorder extension (\<^verbatim>\<open>src/extension/src/entrypoints/content.ts\<close>)
  works on DOM strings.  A string is modelled as a \<^typ>\<open>string\<close>; a character stands for one
  code unit in the range 0..255, which covers every tag name, attribute name, key name and
  literal that the script itself writes.  Code units above 255 are outside the model.
\<close>

definition char_between :: "char \<Rightarrow> char \<Rightarrow> char \<Rightarrow> bool" where
  "char_between lo hi c \<longleftrightarrow> (of_char lo :: nat) \<le> of_char c \<and> (of_char c :: nat) \<le> of_char hi"

text \<open>The character classes of the regular expressions: \<^verbatim>\<open>[a-zA-Z]\<close>, \<^verbatim>\<open>[0-9]\<close> and \<^verbatim>\<open>\s\<close>.\<close>

definition is_letter :: "char \<Rightarrow> bool" where
  "is_letter c \<longleftrightarrow> char_between CHR ''a'' CHR ''z'' c \<or> char_between CHR ''A'' CHR ''Z'' c"

definition is_digit :: "char \<Rightarrow> bool" where
  "is_digit c \<longleftrightarrow> char_between CHR ''0'' CHR ''9'' c"

definition is_space :: "char \<Rightarrow> bool" where
  "is_space c \<longleftrightarrow> c \<in> set [CHR 0x09, CHR 0x0A, CHR 0x0B, CHR 0x0C, CHR 0x0D, CHR 0x20, CHR 0xA0]"

text \<open>
  \<^verbatim>\<open>String.prototype.toLowerCase\<close>: the letters A-Z, and the capital letters of the
  Latin-1 block (0xC0-0xDE without the multiplication sign 0xD7), move up by 32.
\<close>

definition toLowerCase_char :: "char \<Rightarrow> char" where
  "toLowerCase_char c =
     (let n = (of_char c :: nat)
      in if (65 \<le> n \<and> n \<le> 90) \<or> (192 \<le> n \<and> n \<le> 222 \<and> n \<noteq> 215)
         then char_of (n + 32) else c)"

definition toLowerCase :: "string \<Rightarrow> string" where
  "toLowerCase s = map toLowerCase_char s"

text \<open>
  \<^verbatim>\<open>String.prototype.toUpperCase\<close> on the letters a-z.  The script applies it to a
  single character that has passed \<^verbatim>\<open>/[a-zA-Z0-9]/\<close>, so no other letter reaches it.
\<close>

definition toUpperCase_char :: "char \<Rightarrow> char" where
  "toUpperCase_char c =
     (let n = (of_char c :: nat)
      in if 97 \<le> n \<and> n \<le> 122 then char_of (n - 32) else c)"

definition toUpperCase :: "string \<Rightarrow> string" where
  "toUpperCase s = map toUpperCase_char s"

text \<open>\<^verbatim>\<open>String.prototype.trim\<close> removes white space at both ends.\<close>

definition trim :: "string \<Rightarrow> string" where
  "trim s = rev (dropWhile is_space (rev (dropWhile is_space s)))"

text \<open>A number inside a template literal is written in decimal.\<close>

definition digit_char :: "nat \<Rightarrow> char" where
  "digit_char d = ''0123456789'' ! d"

fun string_of_nat :: "nat \<Rightarrow> string" where
  "string_of_nat n =
     (if n < 10 then [digit_char n]
      else string_of_nat (n div 10) @ [digit_char (n mod 10)])"

section \<open>The DOM as the locator functions read it\<close>

text \<open>
  An element carries the properties that the script reads.  \<open>uid\<close> is the identity of the
  object: \<^verbatim>\<open>a === b\<close> on elements is equality of \<open>uid\<close>.  \<open>ident\<close> is \<^verbatim>\<open>element.id\<close>,
  \<open>el_type\<close> is \<^verbatim>\<open>element.type\<close> and \<open>el_value\<close> is \<^verbatim>\<open>element.value\<close>; both are
  \<open>None\<close> on an element that has no such property.  \<open>options\<close> holds the display text of
  the options of a select element.
\<close>

record element =
  uid :: nat
  tagName :: string
  ident :: string
  classList :: "string list"
  attributes :: "(string \<times> string) list"
  textContent :: string
  el_type :: "string option"
  el_value :: "string option"
  options :: "string list"
  selectedIndex :: int

text \<open>
  A node is an element together with the way up: its \<^verbatim>\<open>parentNode\<close> is absent (a
  detached element), or a document, shadow root or fragment (which has \<^verbatim>\<open>children\<close> but
  is no element, so \<^verbatim>\<open>parentElement\<close> is null), or an element.  The DOM is a finite tree,
  so the chain of parents is finite, which is what the datatype expresses.
\<close>

datatype node = Node (self: element) (parentNode: parent_node)
and parent_node =
    No_parent
  | Root_parent "element list"
  | Element_parent "element list" node

text \<open>\<^verbatim>\<open>element.parentNode?.children\<close> and \<^verbatim>\<open>element.parentElement\<close>.\<close>

fun siblings :: "node \<Rightarrow> element list option" where
  "siblings (Node e No_parent) = None"
| "siblings (Node e (Root_parent cs)) = Some cs"
| "siblings (Node e (Element_parent cs p)) = Some cs"

fun parentElement :: "node \<Rightarrow> node option" where
  "parentElement (Node e No_parent) = None"
| "parentElement (Node e (Root_parent cs)) = None"
| "parentElement (Node e (Element_parent cs p)) = Some p"

datatype error = TypeError

section \<open>The locator engine\<close>

subsection \<open>getXPath\<close>

text \<open>
  The loop of \<^verbatim>\<open>getXPath\<close> over the siblings: it stops at the element itself with the
  number of same-tag siblings seen so far, and runs off the end when the element is not
  among them.  Every member of \<^verbatim>\<open>children\<close> is an element, so \<^verbatim>\<open>nodeType === 1\<close> holds
  of each.
\<close>

fun getXPath_loop :: "element \<Rightarrow> element list \<Rightarrow> nat \<Rightarrow> nat option" where
  "getXPath_loop e [] ix = None"
| "getXPath_loop e (s # ss) ix =
     (if uid s = uid e then Some ix
      else getXPath_loop e ss (if tagName s = tagName e then ix + 1 else ix))"

definition node_height :: "node option \<Rightarrow> nat" where
  "node_height x = (case x of None \<Rightarrow> 0 | Some n \<Rightarrow> Suc (size n))"

text \<open>
  \<^verbatim>\<open>getXPath\<close> of \<^verbatim>\<open>content.ts\<close>.  \<open>body\<close> is the identity of \<^verbatim>\<open>document.body\<close>.  The
  recursive call receives \<^verbatim>\<open>element.parentElement as HTMLElement\<close>, which is null under a
  document or a shadow root; reading \<^verbatim>\<open>.id\<close> of null raises a TypeError.
\<close>

function getXPath :: "nat option \<Rightarrow> node option \<Rightarrow> error + string" where
  "getXPath body None = Inl TypeError"
| "getXPath body (Some n) =
     (let e = self n in
      if ident e \<noteq> '''' then Inr (''id(\"'' @ ident e @ ''\")'')
      else if Some (uid e) = body then Inr (toLowerCase (tagName e))
      else case siblings n of
          None \<Rightarrow> Inr (toLowerCase (tagName e))
        | Some sibs \<Rightarrow>
            (case getXPath_loop e sibs 0 of
               None \<Rightarrow> Inr (toLowerCase (tagName e))
             | Some ix \<Rightarrow>
                 (case getXPath body (parentElement n) of
                    Inl err \<Rightarrow> Inl err
                  | Inr p \<Rightarrow>
                      Inr (p @ ''/'' @ toLowerCase (tagName e) @ ''['' @ string_of_nat (ix + 1) @ '']''))))"
  by pat_completeness auto
termination
  apply (relation "measure (\<lambda>(body, x). node_height x)")
   apply simp
  subgoal for body n
    by (cases n rule: parentElement.cases) (simp_all add: node_height_def)
  done

subsection \<open>getEnhancedCSSSelector\<close>

definition SAFE_ATTRIBUTES :: "string list" where
  "SAFE_ATTRIBUTES =
     [''id'', ''name'', ''type'', ''placeholder'', ''aria-label'', ''aria-labelledby'',
      ''aria-describedby'', ''role'', ''for'', ''autocomplete'', ''required'', ''readonly'',
      ''alt'', ''title'', ''src'', ''href'', ''target'', ''data-id'', ''data-qa'', ''data-cy'',
      ''data-testid'']"

text \<open>\<^verbatim>\<open>/^[a-zA-Z_][a-zA-Z0-9_-]*$/.test(className)\<close>\<close>

definition class_char :: "char \<Rightarrow> bool" where
  "class_char c \<longleftrightarrow> is_letter c \<or> is_digit c \<or> c = CHR ''_'' \<or> c = CHR ''-''"

fun validClassPattern :: "string \<Rightarrow> bool" where
  "validClassPattern [] = False"
| "validClassPattern (c # cs) \<longleftrightarrow> (is_letter c \<or> c = CHR ''_'') \<and> list_all class_char cs"

text \<open>
  \<^verbatim>\<open>CSS.escape\<close> is a function of the browser.  Modelled from the CSSOM definition
  (serialize an identifier): a control character, a leading digit, and a digit after a
  leading hyphen are written as a hexadecimal escape; a lone hyphen and every other
  character that is not a letter, digit, hyphen or underscore gets a backslash; the null
  character becomes the replacement character U+FFFD, written here as its three UTF-8
  bytes.
\<close>

definition hex_digit :: "nat \<Rightarrow> char" where
  "hex_digit d = ''0123456789abcdef'' ! d"

definition escape_code_point :: "char \<Rightarrow> string" where
  "escape_code_point c =
     (let n = (of_char c :: nat)
      in [CHR 0x5C] @ (if n < 16 then [hex_digit n] else [hex_digit (n div 16), hex_digit (n mod 16)])
         @ '' '')"

definition CSS_escape_char :: "string \<Rightarrow> nat \<Rightarrow> char \<Rightarrow> string" where
  "CSS_escape_char s i c =
     (let n = (of_char c :: nat)
      in if n = 0 then [CHR 0xEF, CHR 0xBF, CHR 0xBD]
         else if (1 \<le> n \<and> n \<le> 31) \<or> n = 127 then escape_code_point c
         else if i = 0 \<and> is_digit c then escape_code_point c
         else if i = 1 \<and> is_digit c \<and> hd s = CHR ''-'' then escape_code_point c
         else if i = 0 \<and> c = CHR ''-'' \<and> length s = 1 then [CHR 0x5C, c]
         else if 128 \<le> n \<or> class_char c then [c]
         else [CHR 0x5C, c])"

definition CSS_escape :: "string \<Rightarrow> string" where
  "CSS_escape s = concat (map (\<lambda>(i, c). CSS_escape_char s i c) (enumerate 0 s))"

text \<open>\<^verbatim>\<open>str.replace(/c/g, r)\<close> for a single character \<open>c\<close>.\<close>

definition replace_all :: "char \<Rightarrow> string \<Rightarrow> string \<Rightarrow> string" where
  "replace_all c r s = concat (map (\<lambda>d. if d = c then r else [d]) s)"

text \<open>\<^verbatim>\<open>/['"<>`\s]/.test(attrValue)\<close>\<close>

definition needs_substring_match :: "string \<Rightarrow> bool" where
  "needs_substring_match v \<longleftrightarrow>
     list_ex (\<lambda>c. c \<in> set [CHR 0x27, CHR 0x22, CHR ''<'', CHR ''>'', CHR 0x60] \<or> is_space c) v"

text \<open>The callback of \<^verbatim>\<open>classList.forEach\<close>: one class, appended to the selector so far.\<close>

definition class_step :: "string \<Rightarrow> string \<Rightarrow> string" where
  "class_step sel className =
     (if className \<noteq> [] \<and> validClassPattern className
      then sel @ ''.'' @ CSS_escape className else sel)"

text \<open>
  The body of the loop over \<^verbatim>\<open>element.attributes\<close>.  The replacement text of
  \<^verbatim>\<open>attrValue.replace(/"/g, '\"')\<close> is the string literal \<^verbatim>\<open>'\"'\<close>, whose value is
  the one-character string made of a double quote.
\<close>

definition attr_step :: "string \<Rightarrow> string \<times> string \<Rightarrow> string" where
  "attr_step sel attr =
     (let attrName = fst attr; attrValue = snd attr
      in if attrName = ''class'' then sel
         else if trim attrName = [] then sel
         else if attrName \<notin> set SAFE_ATTRIBUTES then sel
         else
           let safeAttribute = CSS_escape attrName
           in if attrValue = [] then sel @ ''['' @ safeAttribute @ '']''
              else
                let safeValue = replace_all (CHR 0x22) [CHR 0x22] attrValue
                in if needs_substring_match attrValue
                   then sel @ ''['' @ safeAttribute @ ''*='' @ [CHR 0x22] @ safeValue @ [CHR 0x22] @ '']''
                   else sel @ ''['' @ safeAttribute @ ''='' @ [CHR 0x22] @ safeValue @ [CHR 0x22] @ '']'')"

text \<open>\<^verbatim>\<open>getEnhancedCSSSelector\<close> of \<^verbatim>\<open>content.ts\<close>; it does not read its second argument.\<close>

definition getEnhancedCSSSelector :: "element \<Rightarrow> string \<Rightarrow> string" where
  "getEnhancedCSSSelector el xp =
     (let sel0 = toLowerCase (tagName el);
          sel1 = (if length (classList el) > 0 then foldl class_step sel0 (classList el) else sel0)
      in foldl attr_step sel1 (attributes el))"

section \<open>Messages to the background script\<close>

text \<open>
  The events of the replay engine.  \<^verbatim>\<open>EventType\<close> and \<^verbatim>\<open>IncrementalSource\<close> are the
  enumerations of \<^verbatim>\<open>@rrweb/types\<close>.  The script reads \<^verbatim>\<open>event.type\<close>,
  \<^verbatim>\<open>event.data.source\<close> and, of a scroll, \<^verbatim>\<open>data.x\<close> and \<^verbatim>\<open>data.y\<close>; everything else
  in an event is opaque (\<open>rest\<close>).  Coordinates are rational numbers.
\<close>

datatype EventType =
  DomContentLoaded | Load | FullSnapshot | IncrementalSnapshot | Meta | Custom | Plugin

datatype IncrementalSource =
  Mutation | MouseMove | MouseInteraction | Scroll | ViewportResize | Input | TouchMove
  | MediaInteraction | StyleSheetRule | CanvasMutation | Font | Log | Drag | StyleDeclaration
  | Selection | AdoptedStyleSheet | CustomElement

record event_data =
  source :: "IncrementalSource option"
  scroll_x :: rat
  scroll_y :: rat
  rest :: string

record rrweb_event =
  etype :: EventType
  data :: event_data
  ev_timestamp :: nat

text \<open>The payloads of the four action messages share the locator fields.\<close>

record action_payload =
  timestamp :: nat
  url :: string
  frameUrl :: string
  xpath :: string
  cssSelector :: string
  elementTag :: string

record click_payload = action_payload +
  elementText :: string

record input_payload = action_payload +
  input_value :: "string option"

record select_payload = action_payload +
  selectedValue :: "string option"
  selectedText :: string

record key_payload = action_payload +
  key :: string

datatype message =
    RRWEB_EVENT rrweb_event
  | CUSTOM_CLICK_EVENT click_payload
  | CUSTOM_INPUT_EVENT input_payload
  | CUSTOM_SELECT_EVENT select_payload
  | CUSTOM_KEY_EVENT key_payload
  | REQUEST_RECORDING_STATUS

section \<open>The state of the content script\<close>

text \<open>
  The module-level variables.  \<open>stopRecording\<close> is the stop function returned by
  \<^verbatim>\<open>rrweb.record\<close>, or undefined.  \<open>scrollTimeout\<close> is the pending debounce timer; what is
  kept of it is the payload that its callback has captured and will send.  Two further
  fields record what the script has done to the world outside: whether the replay engine
  is recording, and whether the capture listeners are attached to the document.
\<close>

datatype stop_handle = Stop_handle

datatype direction = Up | Down

record recorder =
  stopRecording :: "stop_handle option"
  isRecordingActive :: bool
  scrollTimeout :: "rrweb_event option"
  lastScrollY :: "rat option"
  lastDirection :: "direction option"
  engine_recording :: bool
  listeners_attached :: bool

text \<open>The values of the variables when the module is loaded.\<close>

definition initial :: recorder where
  "initial =
     \<lparr>stopRecording = None, isRecordingActive = True, scrollTimeout = None,
      lastScrollY = None, lastDirection = None,
      engine_recording = False, listeners_attached = False\<rparr>"

text \<open>What a handler reads of the page: the clock, the two locations, and \<^verbatim>\<open>document.body\<close>.\<close>

record page =
  now :: nat
  document_href :: string
  window_href :: string
  document_body :: "nat option"

section \<open>The emit callback and the debounce timer\<close>

definition Math_round :: "rat \<Rightarrow> rat" where
  "Math_round q = of_int (round q)"

definition is_scroll :: "rrweb_event \<Rightarrow> bool" where
  "is_scroll event \<longleftrightarrow> etype event = IncrementalSnapshot \<and> source (data event) = Some Scroll"

definition roundedScrollData :: "event_data \<Rightarrow> event_data" where
  "roundedScrollData scrollData =
     scrollData\<lparr>scroll_x := Math_round (scroll_x scrollData),
                scroll_y := Math_round (scroll_y scrollData)\<rparr>"

definition currentDirection :: "recorder \<Rightarrow> event_data \<Rightarrow> direction option" where
  "currentDirection s scrollData =
     (case lastScrollY s of
        None \<Rightarrow> None
      | Some l \<Rightarrow> Some (if scroll_y scrollData > l then Down else Up))"

text \<open>
  The callback \<^verbatim>\<open>emit(event)\<close> handed to \<^verbatim>\<open>rrweb.record\<close>: the new state and the
  messages sent during the call.
\<close>

definition emit :: "recorder \<Rightarrow> rrweb_event \<Rightarrow> recorder \<times> message list" where
  "emit s event =
     (if \<not> isRecordingActive s then (s, [])
      else if is_scroll event then
        let scrollData = data event;
            d = currentDirection s scrollData
        in if lastDirection s \<noteq> None \<and> d \<noteq> None \<and> d \<noteq> lastDirection s
           then (s\<lparr>scrollTimeout := None, lastDirection := d,
                    lastScrollY := Some (scroll_y scrollData)\<rparr>,
                 [RRWEB_EVENT (event\<lparr>data := roundedScrollData scrollData\<rparr>)])
           else (s\<lparr>lastDirection := d, lastScrollY := Some (scroll_y scrollData),
                    scrollTimeout := Some (event\<lparr>data := roundedScrollData scrollData\<rparr>)\<rparr>,
                 [])
      else (s, [RRWEB_EVENT event]))"

text \<open>
  Two names for parts of \<^verbatim>\<open>emit\<close>: the payload \<^verbatim>\<open>{ ...event, data: roundedScrollData }\<close>,
  and the test for a reversal of the scroll direction.
\<close>

definition rounded :: "rrweb_event \<Rightarrow> rrweb_event" where
  "rounded event = event\<lparr>data := roundedScrollData (data event)\<rparr>"

definition reverses :: "recorder \<Rightarrow> rrweb_event \<Rightarrow> bool" where
  "reverses s event \<longleftrightarrow>
     lastDirection s \<noteq> None \<and> currentDirection s (data event) \<noteq> None
     \<and> currentDirection s (data event) \<noteq> lastDirection s"

text \<open>The callback of the debounce timer, run when the pending timer expires.\<close>

definition timer_fires :: "recorder \<Rightarrow> recorder \<times> message list" where
  "timer_fires s =
     (case scrollTimeout s of
        None \<Rightarrow> (s, [])
      | Some payload \<Rightarrow> (s\<lparr>scrollTimeout := None, lastDirection := None\<rparr>, [RRWEB_EVENT payload]))"

section \<open>The lifecycle\<close>

definition startRecorder :: "recorder \<Rightarrow> recorder" where
  "startRecorder s =
     (if stopRecording s \<noteq> None then s
      else s\<lparr>isRecordingActive := True, stopRecording := Some Stop_handle,
             engine_recording := True, listeners_attached := True\<rparr>)"

definition stopRecorder :: "recorder \<Rightarrow> recorder" where
  "stopRecorder s =
     (if stopRecording s \<noteq> None
      then s\<lparr>engine_recording := False, stopRecording := None, isRecordingActive := False\<rparr>
      else s)"

text \<open>The listener for \<^verbatim>\<open>SET_RECORDING_STATUS\<close>, with the payload of the message.\<close>

definition set_recording_status :: "recorder \<Rightarrow> bool \<Rightarrow> recorder" where
  "set_recording_status s shouldBeRecording =
     (if shouldBeRecording \<and> \<not> isRecordingActive s then startRecorder s
      else if \<not> shouldBeRecording \<and> isRecordingActive s then stopRecorder s
      else s)"

text \<open>
  The callback for the answer to \<^verbatim>\<open>REQUEST_RECORDING_STATUS\<close>; the argument is the truth
  value of \<^verbatim>\<open>response && response.isRecordingEnabled\<close>.
\<close>

definition status_response :: "recorder \<Rightarrow> bool \<Rightarrow> recorder" where
  "status_response s enabled = (if enabled then startRecorder s else stopRecorder s)"

section \<open>The capture handlers\<close>

text \<open>
  \<^verbatim>\<open>event.composedPath()[0]\<close> is undefined, an element, or an object that is no element
  (the document or the window), which has neither \<^verbatim>\<open>tagName\<close> nor \<^verbatim>\<open>value\<close>.
\<close>

datatype event_target = Element_target node | Other_target

text \<open>
  A handler returns the messages it has sent, or the exception that leaves it.
  \<^verbatim>\<open>try { ... } catch (error) {}\<close> turns an exception into nothing sent.
\<close>

definition try_catch :: "error + message list \<Rightarrow> error + message list" where
  "try_catch r = (case r of Inl err \<Rightarrow> Inr [] | Inr ms \<Rightarrow> Inr ms)"

text \<open>
  \<^verbatim>\<open>handleCustomClick\<close>.  On a target that is no element, \<^verbatim>\<open>getEnhancedCSSSelector\<close>
  reads \<^verbatim>\<open>tagName.toLowerCase()\<close> of an undefined tag name inside the try block.
\<close>

definition handleCustomClick :: "recorder \<Rightarrow> page \<Rightarrow> event_target option \<Rightarrow> error + message list" where
  "handleCustomClick s pg composedPath0 =
     (if \<not> isRecordingActive s then Inr []
      else case composedPath0 of
          None \<Rightarrow> Inr []
        | Some Other_target \<Rightarrow> try_catch (Inl TypeError)
        | Some (Element_target targetElement) \<Rightarrow>
            try_catch
              (case getXPath (document_body pg) (Some targetElement) of
                 Inl err \<Rightarrow> Inl err
               | Inr xp \<Rightarrow>
                   Inr [CUSTOM_CLICK_EVENT
                     \<lparr>timestamp = now pg, url = document_href pg, frameUrl = window_href pg,
                      xpath = xp,
                      cssSelector = getEnhancedCSSSelector (self targetElement) xp,
                      elementTag = tagName (self targetElement),
                      elementText = take 200 (trim (textContent (self targetElement)))\<rparr>]))"

definition handleInput :: "recorder \<Rightarrow> page \<Rightarrow> event_target option \<Rightarrow> error + message list" where
  "handleInput s pg composedPath0 =
     (if \<not> isRecordingActive s then Inr []
      else case composedPath0 of
          None \<Rightarrow> Inr []
        | Some Other_target \<Rightarrow> Inr []
        | Some (Element_target targetElement) \<Rightarrow>
            if el_value (self targetElement) = None then Inr []
            else
              let isPassword = (el_type (self targetElement) = Some ''password'')
              in try_catch
                (case getXPath (document_body pg) (Some targetElement) of
                   Inl err \<Rightarrow> Inl err
                 | Inr xp \<Rightarrow>
                     Inr [CUSTOM_INPUT_EVENT
                       \<lparr>timestamp = now pg, url = document_href pg, frameUrl = window_href pg,
                        xpath = xp,
                        cssSelector = getEnhancedCSSSelector (self targetElement) xp,
                        elementTag = tagName (self targetElement),
                        input_value =
                          (if isPassword then Some ''********''
                           else el_value (self targetElement))\<rparr>]))"

text \<open>\<^verbatim>\<open>targetElement.options[targetElement.selectedIndex]\<close>, undefined out of range.\<close>

definition selectedOption :: "element \<Rightarrow> string option" where
  "selectedOption el =
     (if 0 \<le> selectedIndex el \<and> selectedIndex el < int (length (options el))
      then Some (options el ! nat (selectedIndex el)) else None)"

definition handleSelectChange :: "recorder \<Rightarrow> page \<Rightarrow> event_target option \<Rightarrow> error + message list" where
  "handleSelectChange s pg composedPath0 =
     (if \<not> isRecordingActive s then Inr []
      else case composedPath0 of
          None \<Rightarrow> Inr []
        | Some Other_target \<Rightarrow> Inr []
        | Some (Element_target targetElement) \<Rightarrow>
            if tagName (self targetElement) \<noteq> ''SELECT'' then Inr []
            else
              try_catch
                (case getXPath (document_body pg) (Some targetElement) of
                   Inl err \<Rightarrow> Inl err
                 | Inr xp \<Rightarrow>
                     Inr [CUSTOM_SELECT_EVENT
                       \<lparr>timestamp = now pg, url = document_href pg, frameUrl = window_href pg,
                        xpath = xp,
                        cssSelector = getEnhancedCSSSelector (self targetElement) xp,
                        elementTag = tagName (self targetElement),
                        selectedValue = el_value (self targetElement),
                        selectedText =
                          (case selectedOption (self targetElement) of
                             Some t \<Rightarrow> t | None \<Rightarrow> [])\<rparr>]))"

definition CAPTURED_KEYS :: "string list" where
  "CAPTURED_KEYS =
     [''Enter'', ''Tab'', ''Escape'', ''ArrowUp'', ''ArrowDown'', ''ArrowLeft'', ''ArrowRight'',
      ''Home'', ''End'', ''PageUp'', ''PageDown'', ''Backspace'', ''Delete'']"

record keyboard_event =
  ev_key :: string
  ctrlKey :: bool
  metaKey :: bool
  composedPath0 :: "event_target option"

text \<open>The first part of \<^verbatim>\<open>handleKeydown\<close>: the key to log, empty when the key is dropped.\<close>

definition keyToLog :: "keyboard_event \<Rightarrow> string" where
  "keyToLog event =
     (if ev_key event \<in> set CAPTURED_KEYS then ev_key event
      else if (ctrlKey event \<or> metaKey event) \<and> length (ev_key event) = 1
              \<and> list_ex (\<lambda>c. is_letter c \<or> is_digit c) (ev_key event)
           then ''CmdOrCtrl+'' @ toUpperCase (ev_key event)
      else [])"

text \<open>
  The inner try block of \<^verbatim>\<open>handleKeydown\<close>: the three variables keep their initial
  values when the target is no element or \<^verbatim>\<open>getXPath\<close> raises.
\<close>

definition key_locator :: "page \<Rightarrow> event_target option \<Rightarrow> string \<times> string \<times> string" where
  "key_locator pg target =
     (case target of
        Some (Element_target targetElement) \<Rightarrow>
          (case getXPath (document_body pg) (Some targetElement) of
             Inl err \<Rightarrow> ([], [], ''document'')
           | Inr xp \<Rightarrow>
               (xp, getEnhancedCSSSelector (self targetElement) xp, tagName (self targetElement)))
      | _ \<Rightarrow> ([], [], ''document''))"

definition handleKeydown :: "recorder \<Rightarrow> page \<Rightarrow> keyboard_event \<Rightarrow> error + message list" where
  "handleKeydown s pg event =
     (if \<not> isRecordingActive s then Inr []
      else
        let k = keyToLog event
        in if k \<noteq> [] then
             (case key_locator pg (composedPath0 event) of
                (xp, css, tag) \<Rightarrow>
                  try_catch
                    (Inr [CUSTOM_KEY_EVENT
                       \<lparr>timestamp = now pg, url = document_href pg, frameUrl = window_href pg,
                        xpath = xp, cssSelector = css, elementTag = tag, key = k\<rparr>]))
           else Inr [])"

section \<open>The script as a transition system\<close>

text \<open>
  Everything that can happen to the loaded script: a command from the background script,
  the answer to the status query, page teardown, an event from the replay engine, expiry of
  the debounce timer, and the four captured DOM events.  An exception that leaves a
  listener is reported by the browser and sends nothing.
\<close>

datatype input =
    Set_recording_status bool
  | Status_response bool
  | Before_unload
  | Engine_emit rrweb_event
  | Timer_expires
  | Click_event "event_target option"
  | Input_event "event_target option"
  | Change_event "event_target option"
  | Keydown_event keyboard_event

definition sent :: "error + message list \<Rightarrow> message list" where
  "sent r = (case r of Inl err \<Rightarrow> [] | Inr ms \<Rightarrow> ms)"

fun step :: "page \<Rightarrow> recorder \<Rightarrow> input \<Rightarrow> recorder \<times> message list" where
  "step pg s (Set_recording_status b) = (set_recording_status s b, [])"
| "step pg s (Status_response b) = (status_response s b, [])"
| "step pg s Before_unload = (stopRecorder s, [])"
| "step pg s (Engine_emit event) = emit s event"
| "step pg s Timer_expires = timer_fires s"
| "step pg s (Click_event t) =
     (s, if listeners_attached s then sent (handleCustomClick s pg t) else [])"
| "step pg s (Input_event t) =
     (s, if listeners_attached s then sent (handleInput s pg t) else [])"
| "step pg s (Change_event t) =
     (s, if listeners_attached s then sent (handleSelectChange s pg t) else [])"
| "step pg s (Keydown_event k) =
     (s, if listeners_attached s then sent (handleKeydown s pg k) else [])"

fun run :: "page \<Rightarrow> recorder \<Rightarrow> input list \<Rightarrow> recorder \<times> message list" where
  "run pg s [] = (s, [])"
| "run pg s (i # is) =
     (case step pg s i of
        (s', out) \<Rightarrow> (case run pg s' is of (s'', out') \<Rightarrow> (s'', out @ out')))"

text \<open>\<^verbatim>\<open>main\<close> registers the listeners of the script and asks for the recording status.\<close>

definition main :: "recorder \<times> message list" where
  "main = (initial, [REQUEST_RECORDING_STATUS])"

section \<open>Example pages and events\<close>

text \<open>An element with a tag name and nothing else.\<close>

definition plain :: "nat \<Rightarrow> string \<Rightarrow> element" where
  "plain u t =
     \<lparr>uid = u, tagName = t, ident = [], classList = [], attributes = [],
      textContent = [], el_type = None, el_value = None, options = [], selectedIndex = -1\<rparr>"

text \<open>
  A document whose root element holds a head and a body; the body holds a div, a
  paragraph and two more divs.
\<close>

definition html_node :: node where
  "html_node = Node (plain 0 ''HTML'') (Root_parent [plain 0 ''HTML''])"

definition head_node :: node where
  "head_node =
     Node (plain 1 ''HEAD'') (Element_parent [plain 1 ''HEAD'', plain 2 ''BODY''] html_node)"

definition body_node :: node where
  "body_node =
     Node (plain 2 ''BODY'') (Element_parent [plain 1 ''HEAD'', plain 2 ''BODY''] html_node)"

definition third_div :: node where
  "third_div =
     Node (plain 6 ''DIV'')
       (Element_parent [plain 3 ''DIV'', plain 4 ''P'', plain 5 ''DIV'', plain 6 ''DIV''] body_node)"

text \<open>Three div elements that are the children of a shadow root; the node is the third.\<close>

definition shadow_third_div :: node where
  "shadow_third_div =
     Node (plain 13 ''DIV'') (Root_parent [plain 11 ''DIV'', plain 12 ''DIV'', plain 13 ''DIV''])"

text \<open>
  Elements for the selector: a button with two classes and an inline handler; a div with
  utility classes and attributes inside and outside the allow-list; a div whose test id
  holds a double quote.
\<close>

definition button_el :: element where
  "button_el =
     (plain 7 ''BUTTON'')
       \<lparr>classList := [''btn'', ''primary''],
        attributes := [(''class'', ''btn primary''), (''onclick'', ''alert(1)'')]\<rparr>"

definition utility_el :: element where
  "utility_el =
     (plain 8 ''DIV'')
       \<lparr>classList := [''card'', ''w-1/2'', ''md:flex'', ''_x9''],
        attributes := [(''class'', ''card w-1/2 md:flex _x9''), (''style'', ''color:red''),
                       (''role'', ''dialog''), (''hidden'', []), (''required'', [])]\<rparr>"

definition testid_el :: element where
  \<open>testid_el = (plain 9 ''DIV'')\<lparr>attributes := [(''data-testid'', ''a"b'')]\<rparr>\<close>

text \<open>A password field in the body, holding what has been typed into it.\<close>

definition password_input :: element where
  "password_input =
     (plain 7 ''INPUT'')
       \<lparr>attributes := [(''type'', ''password''), (''name'', ''pw'')],
        el_type := Some ''password'', el_value := Some []\<rparr>"

definition form_children :: parent_node where
  "form_children = Element_parent [plain 3 ''DIV'', plain 7 ''INPUT''] body_node"

definition password_field :: "string \<Rightarrow> node" where
  "password_field typed = Node (password_input\<lparr>el_value := Some typed\<rparr>) form_children"

text \<open>The script after a first start, and a page.\<close>

definition recording :: recorder where
  "recording = startRecorder initial"

definition example_page :: page where
  "example_page =
     \<lparr>now = 1000, document_href = ''https://example.org/'',
      window_href = ''https://example.org/'', document_body = Some 2\<rparr>"

text \<open>Key presses: Ctrl+A and a lone g on the third div, Enter on the head element.\<close>

definition ctrl_a :: keyboard_event where
  "ctrl_a =
     \<lparr>ev_key = ''a'', ctrlKey = True, metaKey = False,
      composedPath0 = Some (Element_target third_div)\<rparr>"

definition plain_g :: keyboard_event where
  "plain_g =
     \<lparr>ev_key = ''g'', ctrlKey = False, metaKey = False,
      composedPath0 = Some (Element_target third_div)\<rparr>"

definition enter_on_head :: keyboard_event where
  "enter_on_head =
     \<lparr>ev_key = ''Enter'', ctrlKey = False, metaKey = False,
      composedPath0 = Some (Element_target head_node)\<rparr>"

text \<open>Events of the replay engine: a scroll to a position, and a mouse move.\<close>

definition scroll_to :: "rat \<Rightarrow> rat \<Rightarrow> rrweb_event" where
  "scroll_to a b =
     \<lparr>etype = IncrementalSnapshot,
      data = \<lparr>source = Some Scroll, scroll_x = a, scroll_y = b, rest = ''id: 1''\<rparr>,
      ev_timestamp = 0\<rparr>"

definition mouse_move :: rrweb_event where
  "mouse_move =
     \<lparr>etype = IncrementalSnapshot,
      data = \<lparr>source = Some MouseMove, scroll_x = 0, scroll_y = 0, rest = ''positions''\<rparr>,
      ev_timestamp = 0\<rparr>"

section \<open>Evaluation of strings\<close>

lemma char_of_nat_bits:
  "char_of (n::nat) =
     Char (odd n) (odd (n div 2)) (odd (n div 4)) (odd (n div 8))
          (odd (n div 16)) (odd (n div 32)) (odd (n div 64)) (odd (n div 128))"
  by (simp add: char_of_def bit_iff_odd)

lemmas string_eval =
  toLowerCase_def toLowerCase_char_def toUpperCase_def toUpperCase_char_def
  digit_char_def char_of_nat_bits

lemmas class_eval =
  class_char_def is_letter_def is_digit_def is_space_def char_between_def
  SAFE_ATTRIBUTES_def needs_substring_match_def

lemmas lifecycle_eval =
  initial_def startRecorder_def stopRecorder_def set_recording_status_def status_response_def

lemmas scroll_eval =
  emit_def timer_fires_def is_scroll_def currentDirection_def roundedScrollData_def
  Math_round_def scroll_to_def

section \<open>Properties of getXPath\<close>

lemma getXPath_loop_found:
  assumes "\<forall>s \<in> set pre. uid s \<noteq> uid e" and "uid x = uid e"
  shows "getXPath_loop e (pre @ x # post) ix
           = Some (ix + length (filter (\<lambda>s. tagName s = tagName e) pre))"
  using assms by (induction pre arbitrary: ix) simp_all

text \<open>
  The step of \<^verbatim>\<open>getXPath\<close> at an element without id that is not the document body and
  stands among the children of its parent node, after the siblings \<open>pre\<close>: when the XPath
  of the parent element is \<open>p\<close>, the result is \<open>p\<close> followed by \<^verbatim>\<open>/tagname[k]\<close>, with \<open>k\<close>
  one more than the number of siblings in \<open>pre\<close> that have the same tag name; when the
  computation for the parent element raises, so does this one.
\<close>

lemma getXPath_after_parent:
  assumes "ident (self n) = []" and "Some (uid (self n)) \<noteq> body"
    and "siblings n = Some (pre @ x # post)"
    and "uid x = uid (self n)" and "\<forall>s \<in> set pre. uid s \<noteq> uid (self n)"
    and "getXPath body (parentElement n) = Inr p"
  shows "getXPath body (Some n) =
           Inr (p @ ''/'' @ toLowerCase (tagName (self n)) @ ''[''
                @ string_of_nat (length (filter (\<lambda>s. tagName s = tagName (self n)) pre) + 1)
                @ '']'')"
proof -
  have loop: "getXPath_loop (self n) (pre @ x # post) 0
                = Some (length (filter (\<lambda>s. tagName s = tagName (self n)) pre))"
    using getXPath_loop_found[OF assms(5) assms(4), of post 0] by simp
  show ?thesis
    using assms(1,2,3,6) loop by (simp add: Let_def del: string_of_nat.simps)
qed

lemma getXPath_parent_raises:
  assumes "ident (self n) = []" and "Some (uid (self n)) \<noteq> body"
    and "siblings n = Some (pre @ x # post)"
    and "uid x = uid (self n)" and "\<forall>s \<in> set pre. uid s \<noteq> uid (self n)"
    and "getXPath body (parentElement n) = Inl err"
  shows "getXPath body (Some n) = Inl err"
proof -
  have loop: "getXPath_loop (self n) (pre @ x # post) 0
                = Some (length (filter (\<lambda>s. tagName s = tagName (self n)) pre))"
    using getXPath_loop_found[OF assms(5) assms(4), of post 0] by simp
  show ?thesis
    using assms(1,2,3,6) loop by (simp add: Let_def del: string_of_nat.simps)
qed

text \<open>
  An element without id, other than the body, that is a child of a document or of a shadow
  root: its parent element is null, and \<^verbatim>\<open>getXPath\<close> raises.
\<close>

lemma getXPath_under_root:
  assumes "ident e = []" and "Some (uid e) \<noteq> body"
    and "uid x = uid e" and "\<forall>s \<in> set pre. uid s \<noteq> uid e"
  shows "getXPath body (Some (Node e (Root_parent (pre @ x # post)))) = Inl TypeError"
proof -
  have "getXPath body (parentElement (Node e (Root_parent (pre @ x # post)))) = Inl TypeError"
    by simp
  with assms show ?thesis
    by (intro getXPath_parent_raises[where pre = pre and x = x and post = post]) simp_all
qed

text \<open>
  Claim C2 says that \<^verbatim>\<open>getXPath\<close> returns the XPath of the parent followed by
  \<^verbatim>\<open>/tagname[k]\<close>, and a path ending in \<^verbatim>\<open>div[3]\<close> for the third of three div
  siblings.  For the third of three div elements in the body, with a paragraph between
  them, it returns \<^verbatim>\<open>body/div[3]\<close>; for the third of three div elements that are the
  children of a shadow root it returns nothing: the recursive call receives the null parent
  element and raises a TypeError.
\<close>

theorem getXPath_third_div_in_shadow_root:
  "getXPath (Some 2) (Some third_div) = Inr ''body/div[3]''
   \<and> getXPath (Some 2) (Some shadow_third_div) = Inl TypeError"
  by (simp add: third_div_def shadow_third_div_def body_node_def plain_def string_eval)

text \<open>
  Claim C4 says that \<^verbatim>\<open>getXPath\<close> never raises.  On the root element of a document and
  on its head element \<^verbatim>\<open>getXPath\<close> raises a TypeError, and a click on the head element,
  whose locator cannot be derived, is not captured.
\<close>

theorem getXPath_raises_at_document_root:
  "getXPath (Some 2) (Some html_node) = Inl TypeError
   \<and> getXPath (Some 2) (Some head_node) = Inl TypeError
   \<and> handleCustomClick recording example_page (Some (Element_target head_node)) = Inr []"
  by (simp add: handleCustomClick_def try_catch_def recording_def lifecycle_eval
        example_page_def head_node_def html_node_def plain_def)

section \<open>Properties of getEnhancedCSSSelector\<close>

lemma class_char_code:
  assumes "class_char c"
  shows "32 < (of_char c :: nat)" and "(of_char c :: nat) \<noteq> 127"
  using assms by (auto simp: class_char_def is_letter_def is_digit_def char_between_def)

lemma first_char_no_digit:
  assumes "is_letter c \<or> c = CHR ''_''"
  shows "\<not> is_digit c" and "c \<noteq> CHR ''-''" and "class_char c"
  using assms by (auto simp: class_char_def is_letter_def is_digit_def char_between_def)

lemma CSS_escape_char_plain:
  assumes "class_char c" and "i = 0 \<longrightarrow> \<not> is_digit c \<and> c \<noteq> CHR ''-''"
    and "hd s \<noteq> CHR ''-''"
  shows "CSS_escape_char s i c = [c]"
  using assms class_char_code[OF assms(1)]
  by (cases "i = 0") (auto simp add: CSS_escape_char_def Let_def)

lemma concat_enumerate_plain:
  assumes "\<forall>(i, c) \<in> set (enumerate k s). f i c = [c]"
  shows "concat (map (\<lambda>(i, c). f i c) (enumerate k s)) = s"
  using assms by (induction s arbitrary: k) auto

text \<open>\<^verbatim>\<open>CSS.escape\<close> leaves a name that matches the class pattern as it is.\<close>

lemma CSS_escape_valid:
  assumes "validClassPattern s"
  shows "CSS_escape s = s"
proof -
  from assms obtain c cs where s: "s = c # cs"
    and c: "is_letter c \<or> c = CHR ''_''" and cs: "list_all class_char cs"
    by (cases s) auto
  have "\<forall>(i, d) \<in> set (enumerate 0 s). CSS_escape_char s i d = [d]"
  proof (clarify)
    fix i d assume "(i, d) \<in> set (enumerate 0 s)"
    then have i: "i < length s" and d: "d = s ! i"
      by (auto simp: in_set_enumerate_eq)
    have cc: "class_char d"
    proof (cases i)
      case 0
      with d s first_char_no_digit(3)[OF c] show ?thesis by simp
    next
      case (Suc j)
      with i d s cs show ?thesis by (simp add: list_all_length)
    qed
    have first: "i = 0 \<longrightarrow> \<not> is_digit d \<and> d \<noteq> CHR ''-''"
      using d s first_char_no_digit(1,2)[OF c] by simp
    have "hd s \<noteq> CHR ''-''"
      using s first_char_no_digit(2)[OF c] by simp
    with cc first show "CSS_escape_char s i d = [d]"
      by (rule CSS_escape_char_plain)
  qed
  then show ?thesis
    unfolding CSS_escape_def by (rule concat_enumerate_plain)
qed

lemma foldl_class_step:
  "foldl class_step acc cs
     = acc @ concat (map (\<lambda>c. ''.'' @ c) (filter validClassPattern cs))"
proof (induction cs arbitrary: acc)
  case Nil
  show ?case by simp
next
  case (Cons c cs)
  show ?case
  proof (cases "validClassPattern c")
    case True
    then have "c \<noteq> []" by auto
    with True Cons show ?thesis by (simp add: class_step_def CSS_escape_valid)
  next
    case False
    with Cons show ?thesis by (simp add: class_step_def)
  qed
qed

lemma attr_step_append: "attr_step acc a = acc @ attr_step [] a"
  by (simp add: attr_step_def Let_def)

lemma attr_step_unsafe: "fst a \<notin> set SAFE_ATTRIBUTES \<Longrightarrow> attr_step acc a = acc"
  by (simp add: attr_step_def Let_def)

lemma foldl_attr_step:
  "foldl attr_step acc as
     = acc @ concat (map (attr_step []) (filter (\<lambda>a. fst a \<in> set SAFE_ATTRIBUTES) as))"
proof (induction as arbitrary: acc)
  case Nil
  show ?case by simp
next
  case (Cons a as)
  show ?case
  proof (cases "fst a \<in> set SAFE_ATTRIBUTES")
    case True
    with Cons show ?thesis
      using attr_step_append[of acc a] by simp
  next
    case False
    with Cons show ?thesis by (simp add: attr_step_unsafe)
  qed
qed

lemma getEnhancedCSSSelector_split:
  "getEnhancedCSSSelector el xp =
     toLowerCase (tagName el)
     @ concat (map (\<lambda>c. ''.'' @ c) (filter validClassPattern (classList el)))
     @ concat (map (attr_step []) (filter (\<lambda>a. fst a \<in> set SAFE_ATTRIBUTES) (attributes el)))"
proof (cases "classList el")
  case Nil
  then show ?thesis
    by (simp add: getEnhancedCSSSelector_def Let_def foldl_attr_step)
next
  case (Cons c cs)
  then have "foldl class_step (toLowerCase (tagName el)) (classList el)
      = toLowerCase (tagName el)
        @ concat (map (\<lambda>c. ''.'' @ c) (filter validClassPattern (classList el)))"
    by (simp only: foldl_class_step)
  with Cons show ?thesis
    by (simp add: getEnhancedCSSSelector_def Let_def foldl_attr_step del: foldl.simps foldl_Cons)
qed

lemma SAFE_ATTRIBUTES_valid: "n \<in> set SAFE_ATTRIBUTES \<Longrightarrow> validClassPattern n"
  by (auto simp: SAFE_ATTRIBUTES_def class_char_def is_letter_def is_digit_def char_between_def)

lemma trim_eq_Nil: "trim s = [] \<longleftrightarrow> list_all is_space s"
  by (induction s) (auto simp: trim_def dropWhile_eq_Nil_conv list_all_iff)

lemma valid_not_blank: "validClassPattern n \<Longrightarrow> trim n \<noteq> []"
  by (cases n) (auto simp: trim_eq_Nil is_space_def is_letter_def char_between_def)

text \<open>Replacing every double quote by the replacement text of the script changes nothing.\<close>

lemma replace_quote_noop: "replace_all (CHR 0x22) [CHR 0x22] v = v"
  by (induction v) (simp_all add: replace_all_def)

text \<open>
  The fragment of an attribute of the allow-list: the name alone for an empty value, a
  substring match for a value with a quote, an angle bracket, a backtick or white space,
  an exact match otherwise; the value stands between the quotes as it is.
\<close>

lemma attr_step_safe:
  assumes "n \<in> set SAFE_ATTRIBUTES"
  shows "attr_step acc (n, v) =
           acc @ (if v = [] then ''['' @ n @ '']''
                  else if needs_substring_match v
                       then ''['' @ n @ ''*='' @ [CHR 0x22] @ v @ [CHR 0x22] @ '']''
                       else ''['' @ n @ ''='' @ [CHR 0x22] @ v @ [CHR 0x22] @ '']'')"
proof -
  from assms have v: "validClassPattern n" by (rule SAFE_ATTRIBUTES_valid)
  from assms have "n \<noteq> ''class''" by (auto simp: SAFE_ATTRIBUTES_def)
  with assms v show ?thesis
    by (simp add: attr_step_def Let_def valid_not_blank CSS_escape_valid replace_quote_noop)
qed

text \<open>
  Claim C3.  The selector is the lower-case tag name, then one fragment \<^verbatim>\<open>.class\<close> for
  each class of the class list that matches the pattern of safe identifiers, in order, and
  nothing for the other classes, then one fragment for each attribute whose name is in
  the allow-list, and nothing for the other attributes.
\<close>

theorem getEnhancedCSSSelector_filters:
  "getEnhancedCSSSelector el xp =
     toLowerCase (tagName el)
     @ concat (map (\<lambda>c. ''.'' @ c) (filter validClassPattern (classList el)))
     @ concat (map (attr_step []) (filter (\<lambda>a. fst a \<in> set SAFE_ATTRIBUTES) (attributes el)))"
  by (rule getEnhancedCSSSelector_split)

text \<open>
  A button with class \<^verbatim>\<open>btn primary\<close> and an \<^verbatim>\<open>onclick\<close> attribute, and a div with
  two classes that fail the pattern and three attributes outside the allow-list.
\<close>

theorem getEnhancedCSSSelector_filters_witness:
  \<open>getEnhancedCSSSelector button_el [] = ''button.btn.primary''
   \<and> getEnhancedCSSSelector utility_el [] = ''div.card._x9[role="dialog"][required]''\<close>
  using getEnhancedCSSSelector_filters[of button_el "[]"]
    getEnhancedCSSSelector_filters[of utility_el "[]"]
  by (simp add: button_el_def utility_el_def plain_def string_eval class_eval attr_step_safe)

text \<open>
  Claim C1 asks that no fragment holds an unescaped quote.  On an element with the
  attribute \<^verbatim>\<open>data-testid\<close> of value \<^verbatim>\<open>a"b\<close> the script emits a substring-match
  fragment in which the double quote of the value stands unescaped between the quotes of
  the selector.
\<close>

theorem quote_not_escaped:
  \<open>getEnhancedCSSSelector testid_el [] = ''div[data-testid*="a"b"]''\<close>
  by (simp add: getEnhancedCSSSelector_split testid_el_def plain_def string_eval class_eval
        attr_step_safe)

section \<open>Properties of the capture handlers\<close>

lemma captured_keys_long: "k \<in> set CAPTURED_KEYS \<Longrightarrow> 1 < length k"
  by (auto simp: CAPTURED_KEYS_def)

lemma keyToLog_cases:
  "keyToLog e =
     (if ev_key e \<in> set CAPTURED_KEYS then ev_key e
      else if (ctrlKey e \<or> metaKey e) \<and> (\<exists>c. ev_key e = [c] \<and> (is_letter c \<or> is_digit c))
           then ''CmdOrCtrl+'' @ toUpperCase (ev_key e)
      else [])"
proof -
  have "(length (ev_key e) = 1 \<and> list_ex (\<lambda>c. is_letter c \<or> is_digit c) (ev_key e))
        \<longleftrightarrow> (\<exists>c. ev_key e = [c] \<and> (is_letter c \<or> is_digit c))"
    by (cases "ev_key e") auto
  then show ?thesis by (simp add: keyToLog_def)
qed

lemma handleKeydown_sends:
  assumes "isRecordingActive s" and "keyToLog e \<noteq> []"
  shows "\<exists>p. handleKeydown s pg e = Inr [CUSTOM_KEY_EVENT p] \<and> key p = keyToLog e"
  using assms
  by (cases "key_locator pg (composedPath0 e)") (simp add: handleKeydown_def Let_def try_catch_def)

text \<open>
  Claim C5.  While recording is active, a keydown event whose key is in the fixed set
  sends one \<^verbatim>\<open>CUSTOM_KEY_EVENT\<close> with the key as it is; Ctrl or Meta with a key of one
  letter or digit sends one with the key \<^verbatim>\<open>CmdOrCtrl+\<close> followed by the key in upper
  case; every other keydown event sends nothing.
\<close>

theorem handleKeydown_policy:
  assumes "isRecordingActive s"
  shows "(ev_key e \<in> set CAPTURED_KEYS \<longrightarrow>
            (\<exists>p. handleKeydown s pg e = Inr [CUSTOM_KEY_EVENT p] \<and> key p = ev_key e))
       \<and> ((ctrlKey e \<or> metaKey e) \<and> (\<exists>c. ev_key e = [c] \<and> (is_letter c \<or> is_digit c)) \<longrightarrow>
            (\<exists>p. handleKeydown s pg e = Inr [CUSTOM_KEY_EVENT p]
                 \<and> key p = ''CmdOrCtrl+'' @ toUpperCase (ev_key e)))
       \<and> (ev_key e \<notin> set CAPTURED_KEYS
            \<and> \<not> ((ctrlKey e \<or> metaKey e) \<and> (\<exists>c. ev_key e = [c] \<and> (is_letter c \<or> is_digit c))) \<longrightarrow>
            handleKeydown s pg e = Inr [])"
proof (intro conjI impI)
  assume k: "ev_key e \<in> set CAPTURED_KEYS"
  then have "keyToLog e = ev_key e" by (simp add: keyToLog_cases)
  moreover from k have "ev_key e \<noteq> []" using captured_keys_long by fastforce
  ultimately show "\<exists>p. handleKeydown s pg e = Inr [CUSTOM_KEY_EVENT p] \<and> key p = ev_key e"
    using handleKeydown_sends[OF assms, of e pg] by simp
next
  assume m: "(ctrlKey e \<or> metaKey e) \<and> (\<exists>c. ev_key e = [c] \<and> (is_letter c \<or> is_digit c))"
  then have "length (ev_key e) = 1" by auto
  then have "ev_key e \<notin> set CAPTURED_KEYS" using captured_keys_long by fastforce
  with m have "keyToLog e = ''CmdOrCtrl+'' @ toUpperCase (ev_key e)"
    by (simp add: keyToLog_cases)
  then show "\<exists>p. handleKeydown s pg e = Inr [CUSTOM_KEY_EVENT p]
                 \<and> key p = ''CmdOrCtrl+'' @ toUpperCase (ev_key e)"
    using handleKeydown_sends[OF assms, of e pg] by simp
next
  assume "ev_key e \<notin> set CAPTURED_KEYS
            \<and> \<not> ((ctrlKey e \<or> metaKey e) \<and> (\<exists>c. ev_key e = [c] \<and> (is_letter c \<or> is_digit c)))"
  then have "keyToLog e = []" by (simp add: keyToLog_cases)
  with assms show "handleKeydown s pg e = Inr []"
    by (simp add: handleKeydown_def)
qed

text \<open>Ctrl+A is logged as \<^verbatim>\<open>CmdOrCtrl+A\<close>, a lone g is dropped, Enter is logged as it is.\<close>

theorem handleKeydown_policy_witness:
  "isRecordingActive recording
   \<and> (\<exists>p. handleKeydown recording example_page ctrl_a = Inr [CUSTOM_KEY_EVENT p]
           \<and> key p = ''CmdOrCtrl+A'')
   \<and> handleKeydown recording example_page plain_g = Inr []
   \<and> (\<exists>p. handleKeydown recording example_page enter_on_head = Inr [CUSTOM_KEY_EVENT p]
           \<and> key p = ''Enter'')"
proof -
  have a: "isRecordingActive recording"
    by (simp add: recording_def startRecorder_def initial_def)
  have c: "(ctrlKey ctrl_a \<or> metaKey ctrl_a)
           \<and> (\<exists>c. ev_key ctrl_a = [c] \<and> (is_letter c \<or> is_digit c))"
    by (simp add: ctrl_a_def is_letter_def char_between_def)
  have g: "ev_key plain_g \<notin> set CAPTURED_KEYS
           \<and> \<not> ((ctrlKey plain_g \<or> metaKey plain_g)
                 \<and> (\<exists>c. ev_key plain_g = [c] \<and> (is_letter c \<or> is_digit c)))"
    by (simp add: plain_g_def CAPTURED_KEYS_def)
  have n: "ev_key enter_on_head \<in> set CAPTURED_KEYS"
    by (simp add: enter_on_head_def CAPTURED_KEYS_def)
  have u: "toUpperCase (ev_key ctrl_a) = ''A''"
    by (simp add: ctrl_a_def string_eval)
  have k: "ev_key enter_on_head = ''Enter''"
    by (simp add: enter_on_head_def)
  show ?thesis
    using handleKeydown_policy[OF a, of ctrl_a example_page]
      handleKeydown_policy[OF a, of plain_g example_page]
      handleKeydown_policy[OF a, of enter_on_head example_page]
      a c g n u k
    by simp
qed

lemma getXPath_loop_el_value:
  "getXPath_loop (e\<lparr>el_value := v\<rparr>) sibs ix = getXPath_loop e sibs ix"
  by (induction sibs arbitrary: ix) simp_all

lemma getXPath_el_value:
  "getXPath body (Some (Node (e\<lparr>el_value := v\<rparr>) up)) = getXPath body (Some (Node e up))"
  by (cases up)
    (simp_all add: Let_def getXPath_loop_el_value del: string_of_nat.simps
       split: option.splits sum.splits)

lemma getEnhancedCSSSelector_el_value:
  "getEnhancedCSSSelector (e\<lparr>el_value := v\<rparr>) xp = getEnhancedCSSSelector e xp"
  by (simp add: getEnhancedCSSSelector_def Let_def cong: if_cong)

text \<open>
  Claim C6.  On a field of type password, two input events that differ only in what the
  field holds give the same result; every \<^verbatim>\<open>CUSTOM_INPUT_EVENT\<close> sent for such a field
  carries the mask of eight asterisks as its value; and while recording is active and the
  XPath of the field can be computed, the message is sent, with the payload shown.
\<close>

theorem handleInput_password_masked:
  assumes "el_type e = Some ''password''"
  shows "handleInput s pg (Some (Element_target (Node (e\<lparr>el_value := Some v\<rparr>) up)))
           = handleInput s pg (Some (Element_target (Node (e\<lparr>el_value := Some w\<rparr>) up)))
       \<and> (\<forall>p. CUSTOM_INPUT_EVENT p
                 \<in> set (sent (handleInput s pg (Some (Element_target (Node (e\<lparr>el_value := Some v\<rparr>) up)))))
               \<longrightarrow> input_value p = Some ''********'')
       \<and> (isRecordingActive s \<and> getXPath (document_body pg) (Some (Node e up)) = Inr xp \<longrightarrow>
            handleInput s pg (Some (Element_target (Node (e\<lparr>el_value := Some v\<rparr>) up)))
              = Inr [CUSTOM_INPUT_EVENT
                  \<lparr>timestamp = now pg, url = document_href pg, frameUrl = window_href pg,
                   xpath = xp, cssSelector = getEnhancedCSSSelector e xp,
                   elementTag = tagName e, input_value = Some ''********''\<rparr>])"
  using assms
  by (auto simp add: handleInput_def Let_def try_catch_def sent_def getXPath_el_value
        getEnhancedCSSSelector_el_value split: sum.splits simp del: getXPath.simps)

lemma password_input_locator:
  \<open>getXPath (Some 2) (Some (Node password_input form_children)) = Inr ''body/input[1]''\<close>
  \<open>getEnhancedCSSSelector password_input ''body/input[1]'' = ''input[type="password"][name="pw"]''\<close>
  by (simp_all add: getEnhancedCSSSelector_split attr_step_safe class_eval
        password_input_def form_children_def body_node_def plain_def string_eval)

text \<open>Two different passwords typed into the same field give the same single message.\<close>

theorem handleInput_password_masked_witness:
  \<open>el_type password_input = Some ''password''
   \<and> handleInput recording example_page (Some (Element_target (password_field ''hunter2'')))
     = handleInput recording example_page (Some (Element_target (password_field ''correct horse'')))
   \<and> handleInput recording example_page (Some (Element_target (password_field ''hunter2'')))
     = Inr [CUSTOM_INPUT_EVENT
              \<lparr>timestamp = 1000, url = ''https://example.org/'', frameUrl = ''https://example.org/'',
               xpath = ''body/input[1]'',
               cssSelector = ''input[type="password"][name="pw"]'',
               elementTag = ''INPUT'', input_value = Some ''********''\<rparr>]\<close>
proof -
  have t: "el_type password_input = Some ''password''"
    by (simp add: password_input_def plain_def)
  have a: "isRecordingActive recording"
    by (simp add: recording_def startRecorder_def initial_def)
  have x: "getXPath (document_body example_page) (Some (Node password_input form_children))
             = Inr ''body/input[1]''"
    using password_input_locator(1) by (simp add: example_page_def)
  have g: "tagName password_input = ''INPUT''"
    by (simp add: password_input_def plain_def)
  note masked = handleInput_password_masked[OF t, of recording example_page "''hunter2''"
      form_children "''correct horse''" "''body/input[1]''"]
  have same: "handleInput recording example_page (Some (Element_target (password_field ''hunter2'')))
      = handleInput recording example_page (Some (Element_target (password_field ''correct horse'')))"
    unfolding password_field_def using masked by blast
  have "handleInput recording example_page
          (Some (Element_target (Node (password_input\<lparr>el_value := Some ''hunter2''\<rparr>) form_children)))
     = Inr [CUSTOM_INPUT_EVENT
              \<lparr>timestamp = now example_page, url = document_href example_page,
               frameUrl = window_href example_page, xpath = ''body/input[1]'',
               cssSelector = getEnhancedCSSSelector password_input ''body/input[1]'',
               elementTag = tagName password_input, input_value = Some ''********''\<rparr>]"
    using masked a x by blast
  then have payload:
    \<open>handleInput recording example_page (Some (Element_target (password_field ''hunter2'')))
     = Inr [CUSTOM_INPUT_EVENT
              \<lparr>timestamp = 1000, url = ''https://example.org/'', frameUrl = ''https://example.org/'',
               xpath = ''body/input[1]'',
               cssSelector = ''input[type="password"][name="pw"]'',
               elementTag = ''INPUT'', input_value = Some ''********''\<rparr>]\<close>
    by (simp add: password_field_def g password_input_locator(2)) (simp add: example_page_def)
  from t same payload show ?thesis by simp
qed

lemma try_catch_returns: "\<exists>ms. try_catch r = Inr ms"
  by (cases r) (simp_all add: try_catch_def)

lemma handleCustomClick_returns: "\<exists>ms. handleCustomClick s pg c = Inr ms"
  using try_catch_returns
  by (auto simp: handleCustomClick_def split: option.splits event_target.splits)

lemma handleInput_returns: "\<exists>ms. handleInput s pg c = Inr ms"
  using try_catch_returns
  by (auto simp: handleInput_def Let_def split: option.splits event_target.splits)

lemma handleSelectChange_returns: "\<exists>ms. handleSelectChange s pg c = Inr ms"
  using try_catch_returns
  by (auto simp: handleSelectChange_def split: option.splits event_target.splits)

lemma handleKeydown_returns: "\<exists>ms. handleKeydown s pg e = Inr ms"
  using try_catch_returns
  by (auto simp: handleKeydown_def Let_def split: prod.splits)

text \<open>
  Claim C10 says that every handler drops the event when the computation of the locator
  raises.  Enter pressed on the head element, whose XPath raises a TypeError: the keydown
  handler sends the message all the same, with empty locators and the element tag
  \<^verbatim>\<open>document\<close>.
\<close>

theorem keydown_not_dropped_counterexample:
  "getXPath (document_body example_page) (Some head_node) = Inl TypeError
   \<and> handleKeydown recording example_page enter_on_head
     = Inr [CUSTOM_KEY_EVENT
              \<lparr>timestamp = 1000, url = ''https://example.org/'', frameUrl = ''https://example.org/'',
               xpath = [], cssSelector = [], elementTag = ''document'', key = ''Enter''\<rparr>]"
  by (simp add: handleKeydown_def keyToLog_def key_locator_def CAPTURED_KEYS_def try_catch_def
        enter_on_head_def example_page_def recording_def startRecorder_def initial_def
        head_node_def html_node_def plain_def)

text \<open>
  Claim C10, amended.  When the computation of the XPath of the target raises, the click,
  input and select-change handlers send nothing; the keydown handler, for a key that is
  logged while recording is active, sends its message with empty \<open>xpath\<close> and
  \<open>cssSelector\<close> and the element tag \<^verbatim>\<open>document\<close>.  No handler lets an exception out,
  whatever the event.
\<close>

theorem handlers_failure_boundary:
  "(getXPath (document_body pg) (Some t) = Inl err \<longrightarrow>
      handleCustomClick s pg (Some (Element_target t)) = Inr []
      \<and> handleInput s pg (Some (Element_target t)) = Inr []
      \<and> handleSelectChange s pg (Some (Element_target t)) = Inr []
      \<and> (isRecordingActive s \<and> keyToLog e \<noteq> [] \<and> composedPath0 e = Some (Element_target t) \<longrightarrow>
           handleKeydown s pg e
             = Inr [CUSTOM_KEY_EVENT
                      \<lparr>timestamp = now pg, url = document_href pg, frameUrl = window_href pg,
                       xpath = [], cssSelector = [], elementTag = ''document'',
                       key = keyToLog e\<rparr>]))
   \<and> (\<exists>ms. handleCustomClick s pg c = Inr ms)
   \<and> (\<exists>ms. handleInput s pg c = Inr ms)
   \<and> (\<exists>ms. handleSelectChange s pg c = Inr ms)
   \<and> (\<exists>ms. handleKeydown s pg e = Inr ms)"
proof -
  have "handleCustomClick s pg (Some (Element_target t)) = Inr []"
    "handleInput s pg (Some (Element_target t)) = Inr []"
    "handleSelectChange s pg (Some (Element_target t)) = Inr []"
    if "getXPath (document_body pg) (Some t) = Inl err"
    using that
    by (simp_all add: handleCustomClick_def handleInput_def handleSelectChange_def Let_def
          try_catch_def del: getXPath.simps)
  moreover have "handleKeydown s pg e
             = Inr [CUSTOM_KEY_EVENT
                      \<lparr>timestamp = now pg, url = document_href pg, frameUrl = window_href pg,
                       xpath = [], cssSelector = [], elementTag = ''document'',
                       key = keyToLog e\<rparr>]"
    if "getXPath (document_body pg) (Some t) = Inl err" and "isRecordingActive s"
      and "keyToLog e \<noteq> []" and "composedPath0 e = Some (Element_target t)"
    using that
    by (simp add: handleKeydown_def key_locator_def Let_def try_catch_def del: getXPath.simps)
  ultimately show ?thesis
    using handleCustomClick_returns[of s pg c] handleInput_returns[of s pg c]
      handleSelectChange_returns[of s pg c] handleKeydown_returns[of s pg e]
    by blast
qed

theorem handlers_failure_boundary_witness:
  "getXPath (document_body example_page) (Some head_node) = Inl TypeError
   \<and> handleCustomClick recording example_page (Some (Element_target head_node)) = Inr []
   \<and> handleInput recording example_page (Some (Element_target head_node)) = Inr []
   \<and> handleSelectChange recording example_page (Some (Element_target head_node)) = Inr []
   \<and> handleKeydown recording example_page enter_on_head
       = Inr [CUSTOM_KEY_EVENT
                \<lparr>timestamp = 1000, url = ''https://example.org/'', frameUrl = ''https://example.org/'',
                 xpath = [], cssSelector = [], elementTag = ''document'', key = ''Enter''\<rparr>]"
proof -
  have x: "getXPath (document_body example_page) (Some head_node) = Inl TypeError"
    by (simp add: example_page_def head_node_def html_node_def plain_def)
  have a: "isRecordingActive recording"
    by (simp add: recording_def startRecorder_def initial_def)
  have k: "keyToLog enter_on_head = ''Enter''"
    by (simp add: keyToLog_def enter_on_head_def CAPTURED_KEYS_def)
  have c: "composedPath0 enter_on_head = Some (Element_target head_node)"
    by (simp add: enter_on_head_def)
  show ?thesis
    using handlers_failure_boundary[of example_page head_node TypeError recording enter_on_head None]
      x a k c
    by (simp add: example_page_def)
qed

section \<open>Properties of the emit callback\<close>

text \<open>
  Claim C9 says that a reversal of direction flushes with the coordinates buffered before
  the reversal and resets the tracking of the direction.  After scrolls to 10 and to 20
  the pending timer holds the scroll to 20; a scroll back to 5 then sends the scroll to 5,
  the buffered scroll to 20 is never sent, and the tracked direction is up.
\<close>

theorem reversal_counterexample:
  "run example_page recording [Engine_emit (scroll_to 0 10), Engine_emit (scroll_to 0 20)]
     = (recording\<lparr>lastScrollY := Some 20, lastDirection := Some Down,
                  scrollTimeout := Some (scroll_to 0 20)\<rparr>, [])
   \<and> run example_page recording [Engine_emit (scroll_to 0 10), Engine_emit (scroll_to 0 20),
                       Engine_emit (scroll_to 0 5)]
     = (recording\<lparr>lastScrollY := Some 5, lastDirection := Some Up, scrollTimeout := None\<rparr>,
        [RRWEB_EVENT (scroll_to 0 5)])
   \<and> scroll_to 0 5 \<noteq> scroll_to 0 20"
  by (simp add: recording_def lifecycle_eval scroll_eval)

text \<open>
  Claim C9, amended.  While recording is active: an event that is no scroll is sent as it
  is.  A scroll that reverses the tracked direction cancels the pending timer and is sent
  at once, itself, with its coordinates rounded; the tracked direction becomes the new
  direction.  A scroll that does not reverse it sends nothing and replaces the pending
  timer; when the timer expires the scroll is sent with rounded coordinates and the tracked
  direction is cleared.  Two scrolls in a row of which neither reverses the tracked
  direction, followed by the expiry of the timer, send one message, the second scroll.
\<close>

theorem emit_scroll_policy:
  assumes "isRecordingActive s"
  shows "(\<not> is_scroll ev \<longrightarrow> emit s ev = (s, [RRWEB_EVENT ev]))
       \<and> (is_scroll ev \<and> reverses s ev \<longrightarrow>
            emit s ev
              = (s\<lparr>scrollTimeout := None, lastDirection := currentDirection s (data ev),
                     lastScrollY := Some (scroll_y (data ev))\<rparr>,
                 [RRWEB_EVENT (rounded ev)]))
       \<and> (is_scroll ev \<and> \<not> reverses s ev \<longrightarrow>
            emit s ev
              = (s\<lparr>lastDirection := currentDirection s (data ev),
                     lastScrollY := Some (scroll_y (data ev)),
                     scrollTimeout := Some (rounded ev)\<rparr>, [])
            \<and> snd (run pg s [Engine_emit ev, Timer_expires]) = [RRWEB_EVENT (rounded ev)]
            \<and> lastDirection (fst (run pg s [Engine_emit ev, Timer_expires])) = None)
       \<and> (is_scroll ev \<and> \<not> reverses s ev \<and> is_scroll ev' \<and> \<not> reverses (fst (emit s ev)) ev' \<longrightarrow>
            snd (run pg s [Engine_emit ev, Engine_emit ev', Timer_expires])
              = [RRWEB_EVENT (rounded ev')])"
  using assms
  by (auto simp add: emit_def timer_fires_def reverses_def rounded_def Let_def)

text \<open>
  A mouse move passes through; scrolls to 10.5 and then to (1.5, 20.5) give one message
  with the coordinates (2, 21); after scrolls down to 10 and 20, a scroll up to 4.5 is
  sent at once as a scroll to 5.
\<close>

theorem emit_scroll_policy_witness:
  "isRecordingActive recording
   \<and> emit recording mouse_move = (recording, [RRWEB_EVENT mouse_move])
   \<and> snd (run example_page recording
            [Engine_emit (scroll_to 0 (21/2)), Engine_emit (scroll_to (3/2) (41/2)), Timer_expires])
       = [RRWEB_EVENT (scroll_to 2 21)]
   \<and> emit (fst (run example_page recording
                  [Engine_emit (scroll_to 0 10), Engine_emit (scroll_to 0 20)]))
           (scroll_to 0 (9/2))
       = (recording\<lparr>scrollTimeout := None, lastDirection := Some Up, lastScrollY := Some (9/2)\<rparr>,
          [RRWEB_EVENT (scroll_to 0 5)])"
proof -
  have a: "isRecordingActive recording"
    by (simp add: recording_def lifecycle_eval)
  have m: "\<not> is_scroll mouse_move"
    by (simp add: is_scroll_def mouse_move_def)
  have e1: "is_scroll (scroll_to 0 (21/2))" and e2: "is_scroll (scroll_to (3/2) (41/2))"
    by (simp_all add: is_scroll_def scroll_to_def)
  have r1: "\<not> reverses recording (scroll_to 0 (21/2))"
    by (simp add: reverses_def recording_def lifecycle_eval)
  have r2: "\<not> reverses (fst (emit recording (scroll_to 0 (21/2)))) (scroll_to (3/2) (41/2))"
    by (simp add: reverses_def recording_def lifecycle_eval scroll_eval)
  have half: "Math_round 0 = 0" "Math_round (3/2) = 2" "Math_round (41/2) = 21"
    "Math_round (9/2) = 5"
    by code_simp+
  have rd: "rounded (scroll_to (3/2) (41/2)) = scroll_to 2 21"
    by (simp add: rounded_def roundedScrollData_def scroll_to_def half)
  define s2 where "s2 = fst (run example_page recording
                  [Engine_emit (scroll_to 0 10), Engine_emit (scroll_to 0 20)])"
  have s2: "s2 = recording\<lparr>lastScrollY := Some 20, lastDirection := Some Down,
                  scrollTimeout := Some (scroll_to 0 20)\<rparr>"
    by (simp add: s2_def recording_def lifecycle_eval scroll_eval)
  have a2: "isRecordingActive s2"
    by (simp add: s2 recording_def lifecycle_eval)
  have e3: "is_scroll (scroll_to 0 (9/2))"
    by (simp add: is_scroll_def scroll_to_def)
  have r3: "reverses s2 (scroll_to 0 (9/2))"
    by (simp add: s2 reverses_def currentDirection_def scroll_to_def)
  have rd3: "rounded (scroll_to 0 (9/2)) = scroll_to 0 5"
    by (simp add: rounded_def roundedScrollData_def scroll_to_def half)
  have c3: "currentDirection s2 (data (scroll_to 0 (9/2))) = Some Up"
    by (simp add: s2 currentDirection_def scroll_to_def)
  have y3: "scroll_y (data (scroll_to 0 (9/2))) = 9/2"
    by (simp add: scroll_to_def)
  have "emit s2 (scroll_to 0 (9/2))
       = (s2\<lparr>scrollTimeout := None, lastDirection := Some Up, lastScrollY := Some (9/2)\<rparr>,
          [RRWEB_EVENT (scroll_to 0 5)])"
    using emit_scroll_policy[OF a2, of "scroll_to 0 (9/2)"] e3 r3 rd3 c3 y3 by simp
  then have rev: "emit s2 (scroll_to 0 (9/2))
       = (recording\<lparr>scrollTimeout := None, lastDirection := Some Up, lastScrollY := Some (9/2)\<rparr>,
          [RRWEB_EVENT (scroll_to 0 5)])"
    by (simp add: s2)
  have p1: "emit recording mouse_move = (recording, [RRWEB_EVENT mouse_move])"
    using emit_scroll_policy[OF a, of mouse_move] m by blast
  have "snd (run example_page recording
            [Engine_emit (scroll_to 0 (21/2)), Engine_emit (scroll_to (3/2) (41/2)), Timer_expires])
       = [RRWEB_EVENT (rounded (scroll_to (3/2) (41/2)))]"
    using emit_scroll_policy[OF a, where ev = "scroll_to 0 (21/2)"
        and ev' = "scroll_to (3/2) (41/2)" and pg = example_page] e1 e2 r1 r2
    by blast
  then have p2: "snd (run example_page recording
            [Engine_emit (scroll_to 0 (21/2)), Engine_emit (scroll_to (3/2) (41/2)), Timer_expires])
       = [RRWEB_EVENT (scroll_to 2 21)]"
    by (simp only: rd)
  show ?thesis
    by (intro conjI a p1 p2 rev[unfolded s2_def])
qed

section \<open>Properties of the lifecycle\<close>

text \<open>While the active flag is false, the emit callback and the four handlers send nothing.\<close>

lemma emit_inactive: "\<not> isRecordingActive s \<Longrightarrow> emit s ev = (s, [])"
  by (simp add: emit_def)

lemma handlers_inactive:
  assumes "\<not> isRecordingActive s"
  shows "handleCustomClick s pg c = Inr []" and "handleInput s pg c = Inr []"
    and "handleSelectChange s pg c = Inr []" and "handleKeydown s pg k = Inr []"
  using assms
  by (simp_all add: handleCustomClick_def handleInput_def handleSelectChange_def handleKeydown_def)

text \<open>
  Claim C7 asks that nothing is sent once stop has cleared the active flag, a scroll
  waiting behind the debounce timer included.  Start, one scroll, stop: the flag is false,
  the stop function is gone and the timer is still pending; when it expires its callback
  sends the scroll.
\<close>

theorem pending_scroll_sent_after_stop:
  "run example_page initial [Status_response True, Engine_emit (scroll_to 0 10), Set_recording_status False]
     = (initial\<lparr>isRecordingActive := False, listeners_attached := True,
                lastScrollY := Some 10, scrollTimeout := Some (scroll_to 0 10)\<rparr>, [])
   \<and> run example_page initial [Status_response True, Engine_emit (scroll_to 0 10), Set_recording_status False,
                     Timer_expires]
     = (initial\<lparr>isRecordingActive := False, listeners_attached := True,
                lastScrollY := Some 10\<rparr>, [RRWEB_EVENT (scroll_to 0 10)])"
  by (simp add: lifecycle_eval scroll_eval)

text \<open>
  In every state that the script reaches, the stop function is present exactly when the
  replay engine is recording, and then the active flag is true.
\<close>

lemma step_handle_engine:
  assumes "(stopRecording s \<noteq> None) = engine_recording s"
    and "stopRecording s \<noteq> None \<longrightarrow> isRecordingActive s"
  shows "(stopRecording (fst (step pg s i)) \<noteq> None) = engine_recording (fst (step pg s i))
       \<and> (stopRecording (fst (step pg s i)) \<noteq> None \<longrightarrow> isRecordingActive (fst (step pg s i)))"
  using assms
  by (cases i)
    (auto simp: lifecycle_eval emit_def timer_fires_def Let_def split: option.splits if_splits)

lemma fst_run_Cons: "fst (run pg s (i # is)) = fst (run pg (fst (step pg s i)) is)"
  by (simp split: prod.splits)

lemma run_handle_engine:
  assumes "(stopRecording s \<noteq> None) = engine_recording s"
    and "stopRecording s \<noteq> None \<longrightarrow> isRecordingActive s"
  shows "(stopRecording (fst (run pg s is)) \<noteq> None) = engine_recording (fst (run pg s is))
       \<and> (stopRecording (fst (run pg s is)) \<noteq> None \<longrightarrow> isRecordingActive (fst (run pg s is)))"
  using assms
proof (induction "is" arbitrary: s)
  case Nil
  then show ?case by simp
next
  case (Cons i "is")
  from step_handle_engine[OF Cons.prems, of pg i]
  have "(stopRecording (fst (step pg s i)) \<noteq> None) = engine_recording (fst (step pg s i))"
    and "stopRecording (fst (step pg s i)) \<noteq> None \<longrightarrow> isRecordingActive (fst (step pg s i))"
    by simp_all
  from Cons.IH[OF this] show ?case
    unfolding fst_run_Cons by blast
qed

lemma reachable_handle_engine:
  "(stopRecording (fst (run pg initial is)) \<noteq> None) = engine_recording (fst (run pg initial is))
   \<and> (stopRecording (fst (run pg initial is)) \<noteq> None \<longrightarrow> isRecordingActive (fst (run pg initial is)))"
  by (rule run_handle_engine) (simp_all add: initial_def)

text \<open>
  Claim C8 asks that the active flag is true exactly when the stop function is present,
  in the initial state too.  When the module is loaded the flag is true while there is no
  stop function and the engine is not recording; and when the status query is answered
  with "disabled", a later command to record finds the flag true and starts nothing.
\<close>

theorem initial_flag_without_handle:
  "isRecordingActive initial \<and> stopRecording initial = None \<and> \<not> engine_recording initial
   \<and> run example_page initial [Status_response False, Set_recording_status True] = (initial, [])"
  by (simp add: lifecycle_eval)

end
